theory Spec2Isabelle
  imports Complex_Main
begin

section \<open>JavaScript values that reach the forms\<close>

text \<open>
  A JavaScript number is \<open>NaN\<close>, one of the two infinities, or a finite double. Every finite
  double is a rational, so finite numbers are modelled as \<^typ>\<open>rat\<close>; rounding is not part
  of the model, and no definition below produces a number by arithmetic.
\<close>

datatype jsnum = NaN | NegInf | Fin rat | PosInf

text \<open>The comparison \<^verbatim>\<open>a < b\<close> on numbers: false as soon as one side is \<open>NaN\<close>.\<close>

fun js_lt :: "jsnum \<Rightarrow> jsnum \<Rightarrow> bool" where
  "js_lt NaN b = False"
| "js_lt a NaN = False"
| "js_lt NegInf NegInf = False"
| "js_lt NegInf b = True"
| "js_lt (Fin x) NegInf = False"
| "js_lt (Fin x) (Fin y) = (x < y)"
| "js_lt (Fin x) PosInf = True"
| "js_lt PosInf b = False"

text \<open>
  The value held by the price field: the number put there by \<^verbatim>\<open>defaultValues\<close>, or the
  string delivered by the \<^verbatim>\<open><Input type="number">\<close> once the user has typed.
\<close>

datatype jsval = JNum jsnum | JStr string

text \<open>
  \<^verbatim>\<open>Number(v)\<close>, the coercion of \<^verbatim>\<open>z.coerce.number()\<close>. A number is returned as it is.
  The conversion of a string is the built-in \<^verbatim>\<open>StringToNumber\<close> of the language, which is
  not code of the repository: it is the parameter \<open>S\<close>.
\<close>

definition Number_js :: "(string \<Rightarrow> jsnum) \<Rightarrow> jsval \<Rightarrow> jsnum" where
  "Number_js S v = (case v of JNum n \<Rightarrow> n | JStr s \<Rightarrow> S s)"

text \<open>
  \<^verbatim>\<open>useParams()\<close> is a dictionary of route parameters. A template literal
  \<^verbatim>\<open>`${params.k}`\<close> prints a missing key as the text \<^verbatim>\<open>undefined\<close>.
\<close>

type_synonym params = "string \<rightharpoonup> string"

definition interp :: "string option \<Rightarrow> string" where
  "interp v = (case v of None \<Rightarrow> ''undefined'' | Some s \<Rightarrow> s)"

section \<open>Navigation menu (src/components/main-nav.tsx)\<close>

record route =
  href :: string
  label :: string
  active :: bool

definition MainNav_routes :: "params \<Rightarrow> string \<Rightarrow> route list" where
  "MainNav_routes params pathname =
    [ \<lparr> href = ''/'' @ interp (params ''storeId''),
        label = ''Overview'',
        active = (pathname = ''/'' @ interp (params ''storeId'')) \<rparr>,
      \<lparr> href = ''/'' @ interp (params ''storeId'') @ ''/billboards'',
        label = ''Papan Iklan'',
        active = (pathname = ''/'' @ interp (params ''storeId'') @ ''/billboards'') \<rparr>,
      \<lparr> href = ''/'' @ interp (params ''storeId'') @ ''/categories'',
        label = ''Kategori'',
        active = (pathname = ''/'' @ interp (params ''storeId'') @ ''/categories'') \<rparr>,
      \<lparr> href = ''/'' @ interp (params ''storeId'') @ ''/sizes'',
        label = ''Bentuk Obat'',
        active = (pathname = ''/'' @ interp (params ''storeId'') @ ''/sizes'') \<rparr>,
      \<lparr> href = ''/'' @ interp (params ''storeId'') @ ''/colors'',
        label = ''Tipe Obat'',
        active = (pathname = ''/'' @ interp (params ''storeId'') @ ''/colors'') \<rparr>,
      \<lparr> href = ''/'' @ interp (params ''storeId'') @ ''/products'',
        label = ''Produk'',
        active = (pathname = ''/'' @ interp (params ''storeId'') @ ''/products'') \<rparr>,
      \<lparr> href = ''/'' @ interp (params ''storeId'') @ ''/orders'',
        label = ''Pesanan'',
        active = (pathname = ''/'' @ interp (params ''storeId'') @ ''/orders'') \<rparr>,
      \<lparr> href = ''/'' @ interp (params ''storeId'') @ ''/settings'',
        label = ''Setting'',
        active = (pathname = ''/'' @ interp (params ''storeId'') @ ''/settings'') \<rparr> ]"

section \<open>Validation schemas (zod)\<close>

text \<open>An issue is the path of the field and the code zod reports for it.\<close>

datatype issue_code = invalid_type | too_small

type_synonym issue = "string \<times> issue_code"

definition at_path :: "string \<Rightarrow> issue_code list \<Rightarrow> issue list" where
  "at_path p cs = map (Pair p) cs"

text \<open>\<^verbatim>\<open>z.string().min(n)\<close>: the issue \<open>too_small\<close> when the text is shorter than \<open>n\<close>.\<close>

definition z_string_min :: "nat \<Rightarrow> string \<Rightarrow> issue_code list" where
  "z_string_min n s = (if length s < n then [too_small] else [])"

text \<open>
  \<^verbatim>\<open>z.coerce.number().min(m)\<close>: the input is passed through \<^verbatim>\<open>Number\<close>; a \<open>NaN\<close> is
  not of type number for zod (\<open>invalid_type\<close>); the inclusive minimum reports
  \<open>too_small\<close> when \<^verbatim>\<open>data < m\<close>. The infinities are numbers for zod.
\<close>

definition z_coerce_number_min :: "(string \<Rightarrow> jsnum) \<Rightarrow> rat \<Rightarrow> jsval \<Rightarrow> issue_code list + jsnum" where
  "z_coerce_number_min S m v =
    (let n = Number_js S v in
     if n = NaN then Inl [invalid_type]
     else if js_lt n (Fin m) then Inl [too_small]
     else Inr n)"

definition issues_of :: "issue_code list + 'a \<Rightarrow> issue_code list" where
  "issues_of r = (case r of Inl cs \<Rightarrow> cs | Inr x \<Rightarrow> [])"

subsection \<open>Product form schema (src/unnamed/part\_000, lines 66-75)\<close>

record image_ref =
  url :: string

text \<open>
  The fields of the product schema. The form holds them with the price as it was entered
  (\<^typ>\<open>jsval\<close>), the parsed data has the coerced price (\<^typ>\<open>jsnum\<close>). The two flags are
  \<^verbatim>\<open>z.boolean().default(false).optional()\<close>: \<open>None\<close> is \<^verbatim>\<open>undefined\<close>, which the
  outer \<^verbatim>\<open>optional()\<close> lets through unchanged.
\<close>

record 'p product_fields =
  name :: string
  images :: "image_ref list"
  price :: 'p
  categoryId :: string
  colorId :: string
  sizeId :: string
  isFeatured :: "bool option"
  isArchived :: "bool option"

text \<open>
  The object schema visits its keys in the order of the declaration and collects the
  issues of all of them. \<^verbatim>\<open>images\<close> is an array of objects with a string \<^verbatim>\<open>url\<close> and
  no length check; the flags have no check either.
\<close>

definition formSchema_product_issues :: "(string \<Rightarrow> jsnum) \<Rightarrow> jsval product_fields \<Rightarrow> issue list" where
  "formSchema_product_issues S v =
     at_path ''name'' (z_string_min 1 (product_fields.name v)) @
     at_path ''price'' (issues_of (z_coerce_number_min S 1 (price v))) @
     at_path ''categoryId'' (z_string_min 1 (product_fields.categoryId v)) @
     at_path ''colorId'' (z_string_min 1 (colorId v)) @
     at_path ''sizeId'' (z_string_min 1 (sizeId v))"

text \<open>The parse succeeds with the data, the price coerced, exactly when no key has an issue.\<close>

definition formSchema_product ::
  "(string \<Rightarrow> jsnum) \<Rightarrow> jsval product_fields \<Rightarrow> issue list + jsnum product_fields" where
  "formSchema_product S v =
    (case (formSchema_product_issues S v, z_coerce_number_min S 1 (price v)) of
       ([], Inr n) \<Rightarrow>
         Inr \<lparr> product_fields.name = product_fields.name v, images = images v, price = n,
               product_fields.categoryId = product_fields.categoryId v,
               colorId = colorId v, sizeId = sizeId v,
               isFeatured = isFeatured v, isArchived = isArchived v \<rparr>
     | (issues, r) \<Rightarrow> Inl issues)"

subsection \<open>Category form schema (categories/components/columns.tsx, lines 58-61)\<close>

record category_fields =
  name :: string
  billboardId :: string

definition formSchema_category_issues :: "category_fields \<Rightarrow> issue list" where
  "formSchema_category_issues v =
     at_path ''name'' (z_string_min 1 (category_fields.name v)) @
     at_path ''billboardId'' (z_string_min 1 (billboardId v))"

definition formSchema_category :: "category_fields \<Rightarrow> issue list + category_fields" where
  "formSchema_category v =
    (if formSchema_category_issues v = []
     then Inr \<lparr> category_fields.name = category_fields.name v, billboardId = billboardId v \<rparr>
     else Inl (formSchema_category_issues v))"

section \<open>Component state, effects and control flow\<close>

datatype http_method = POST | PATCH | DELETE

text \<open>What a handler does to the outside, in the order it does it.\<close>

datatype 'd effect =
    Request http_method string "'d option"
  | Refresh
  | Push string
  | ToastSuccess string
  | ToastError string

text \<open>The outcome of the awaited axios promise: it resolves, or it rejects and the \<^verbatim>\<open>await\<close> throws.\<close>

datatype response = Resolved | Rejected

text \<open>
  The state of one mounted component: the two \<^verbatim>\<open>useState\<close> flags (\<^verbatim>\<open>open\<close> is
  \<open>open_modal\<close> here), the values and errors kept by \<^verbatim>\<open>useForm\<close>, and the effects issued
  so far.
\<close>

record ('v, 'd) component =
  loading :: bool
  open_modal :: bool
  field_values :: 'v
  field_errors :: "issue list"
  effects :: "'d effect list"

text \<open>A statement completes normally or throws; both carry the state reached.\<close>

datatype 's completion = Normal 's | Throw 's

fun state_of :: "'s completion \<Rightarrow> 's" where
  "state_of (Normal s) = s"
| "state_of (Throw s) = s"

fun block :: "('s \<Rightarrow> 's completion) list \<Rightarrow> 's \<Rightarrow> 's completion" where
  "block [] s = Normal s"
| "block (c # cs) s = (case c s of Normal s' \<Rightarrow> block cs s' | Throw s' \<Rightarrow> Throw s')"

text \<open>
  \<^verbatim>\<open>try { body } catch (error) { handler } finally { fin }\<close>: the handler runs when the
  body throws; \<open>fin\<close> runs in every case, and an exception of the handler is thrown again
  after it.
\<close>

definition try_catch_finally ::
  "('s \<Rightarrow> 's completion) \<Rightarrow> ('s \<Rightarrow> 's completion) \<Rightarrow> ('s \<Rightarrow> 's completion) \<Rightarrow> 's \<Rightarrow> 's completion" where
  "try_catch_finally body handler fin s =
    (case (case body s of Normal s1 \<Rightarrow> Normal s1 | Throw s1 \<Rightarrow> handler s1) of
       Normal s2 \<Rightarrow> fin s2
     | Throw s2 \<Rightarrow> Throw (state_of (fin s2)))"

definition setLoading :: "bool \<Rightarrow> ('v, 'd) component \<Rightarrow> ('v, 'd) component completion" where
  "setLoading b s = Normal (s\<lparr>loading := b\<rparr>)"

definition setOpen :: "bool \<Rightarrow> ('v, 'd) component \<Rightarrow> ('v, 'd) component completion" where
  "setOpen b s = Normal (s\<lparr>open_modal := b\<rparr>)"

definition emit :: "'d effect \<Rightarrow> ('v, 'd) component \<Rightarrow> ('v, 'd) component" where
  "emit e s = s\<lparr>effects := effects s @ [e]\<rparr>"

text \<open>\<^verbatim>\<open>await axios.post/patch/delete(url, body)\<close>: the request is sent, then the promise settles.\<close>

definition axios_request ::
  "response \<Rightarrow> http_method \<Rightarrow> string \<Rightarrow> 'd option \<Rightarrow> ('v, 'd) component \<Rightarrow> ('v, 'd) component completion" where
  "axios_request resp m u body s =
    (case resp of
       Resolved \<Rightarrow> Normal (emit (Request m u body) s)
     | Rejected \<Rightarrow> Throw (emit (Request m u body) s))"

definition router_refresh :: "('v, 'd) component \<Rightarrow> ('v, 'd) component completion" where
  "router_refresh s = Normal (emit Refresh s)"

definition router_push :: "string \<Rightarrow> ('v, 'd) component \<Rightarrow> ('v, 'd) component completion" where
  "router_push u s = Normal (emit (Push u) s)"

definition toast_success :: "string \<Rightarrow> ('v, 'd) component \<Rightarrow> ('v, 'd) component completion" where
  "toast_success m s = Normal (emit (ToastSuccess m) s)"

definition toast_error :: "string \<Rightarrow> ('v, 'd) component \<Rightarrow> ('v, 'd) component completion" where
  "toast_error m s = Normal (emit (ToastError m) s)"

text \<open>
  \<^verbatim>\<open>form.handleSubmit(onValid)\<close> of react-hook-form with a resolver: the current values
  are validated first; with issues they become the field errors and \<open>onValid\<close> is not
  called; without issues the errors are cleared and \<open>onValid\<close> receives the parsed data.
\<close>

definition handleSubmit ::
  "('v \<Rightarrow> issue list + 'd) \<Rightarrow> ('d \<Rightarrow> ('v, 'd) component \<Rightarrow> ('v, 'd) component completion) \<Rightarrow>
   ('v, 'd) component \<Rightarrow> ('v, 'd) component completion" where
  "handleSubmit resolver onValid s =
    (case resolver (field_values s) of
       Inl errs \<Rightarrow> Normal (s\<lparr>field_errors := errs\<rparr>)
     | Inr d \<Rightarrow> onValid d (s\<lparr>field_errors := []\<rparr>))"

text \<open>Observations on a list of effects.\<close>

fun is_Request :: "'d effect \<Rightarrow> bool" where
  "is_Request (Request m u b) = True"
| "is_Request e = False"

fun push_target :: "'d effect \<Rightarrow> string list" where
  "push_target (Push u) = [u]"
| "push_target e = []"

definition requests :: "'d effect list \<Rightarrow> 'd effect list" where
  "requests es = filter is_Request es"

definition navigations :: "'d effect list \<Rightarrow> string list" where
  "navigations es = concat (map push_target es)"

fun toast_of :: "'d effect \<Rightarrow> 'd effect list" where
  "toast_of (ToastSuccess m) = [ToastSuccess m]"
| "toast_of (ToastError m) = [ToastError m]"
| "toast_of e = []"

definition toasts :: "'d effect list \<Rightarrow> 'd effect list" where
  "toasts es = concat (map toast_of es)"

text \<open>What a rendered form shows: the heading, the delete button (absent in create mode,
  otherwise its \<^verbatim>\<open>disabled\<close> flag), each field control with its \<^verbatim>\<open>disabled\<close> flag in the
  order of the markup, the submit button, and the props of the confirmation modal.\<close>

record view =
  heading_title :: string
  heading_description :: string
  trash_button :: "bool option"
  controls :: "(string \<times> bool) list"
  submit_disabled :: bool
  submit_label :: string
  modal_isOpen :: bool
  modal_loading :: bool

section \<open>Product form (src/unnamed/part\_000, lines 37-399)\<close>

text \<open>
  Modelled from the spec: the record type \<^verbatim>\<open>Product & { images: Image[] }\<close> generated by
  the ORM is not among the sources. The spec's data model gives a product an id, a name, a
  price, references to category, size and colour, a list of image references, the two
  flags and timestamps. The price is a decimal of the database, a rational here; of an
  image only the \<^verbatim>\<open>url\<close> is kept, the one key the schema reads.
\<close>

record Product =
  id :: string
  name :: string
  price :: rat
  categoryId :: string
  sizeId :: string
  colorId :: string
  images :: "image_ref list"
  isFeatured :: bool
  isArchived :: bool
  createdAt :: nat
  updatedAt :: nat

type_synonym product_state = "(jsval product_fields, jsnum product_fields) component"

definition ProductForm_title :: "Product option \<Rightarrow> string" where
  "ProductForm_title initialData = (if initialData \<noteq> None then ''Edit Produk'' else ''Buat Produk Baru'')"

definition ProductForm_description :: "Product option \<Rightarrow> string" where
  "ProductForm_description initialData = (if initialData \<noteq> None then ''Edit produk'' else ''Buat Produk Baru'')"

definition ProductForm_toastMessage :: "Product option \<Rightarrow> string" where
  "ProductForm_toastMessage initialData =
    (if initialData \<noteq> None then ''Produk di Perbarui.'' else ''Produk berhasil dibuat'')"

definition ProductForm_action :: "Product option \<Rightarrow> string" where
  "ProductForm_action initialData = (if initialData \<noteq> None then ''Simpan Perubahan'' else ''Buat Baru'')"

text \<open>
  \<^verbatim>\<open>defaultValues\<close>: the record itself with the price replaced by
  \<^verbatim>\<open>parseFloat(String(initialData.price))\<close>, or the empty defaults. The two built-ins are
  the parameter \<open>P\<close>.
\<close>

definition ProductForm_defaultValues :: "(rat \<Rightarrow> jsnum) \<Rightarrow> Product option \<Rightarrow> jsval product_fields" where
  "ProductForm_defaultValues P initialData =
    (case initialData of
       Some d \<Rightarrow>
         \<lparr> product_fields.name = Product.name d, images = Product.images d,
           price = JNum (P (Product.price d)),
           categoryId = Product.categoryId d, colorId = Product.colorId d,
           sizeId = Product.sizeId d,
           isFeatured = Some (Product.isFeatured d), isArchived = Some (Product.isArchived d) \<rparr>
     | None \<Rightarrow>
         \<lparr> product_fields.name = '''', images = [], price = JNum (Fin 0),
           categoryId = '''', colorId = '''', sizeId = '''',
           isFeatured = Some False, isArchived = Some False \<rparr>)"

definition ProductForm_onSubmit ::
  "params \<Rightarrow> Product option \<Rightarrow> response \<Rightarrow> jsnum product_fields \<Rightarrow> product_state \<Rightarrow> product_state completion" where
  "ProductForm_onSubmit params initialData resp data =
    try_catch_finally
      (block
        [ setLoading True,
          (if initialData \<noteq> None
           then axios_request resp PATCH
                  (''/api/'' @ interp (params ''storeId'') @ ''/products/'' @ interp (params ''productId''))
                  (Some data)
           else axios_request resp POST
                  (''/api/'' @ interp (params ''storeId'') @ ''/products'') (Some data)),
          router_refresh,
          router_push (''/'' @ interp (params ''storeId'') @ ''/products''),
          toast_success (ProductForm_toastMessage initialData) ])
      (toast_error ''Ada sesuatu yang salah'')
      (setLoading False)"

definition ProductForm_onDelete :: "params \<Rightarrow> response \<Rightarrow> product_state \<Rightarrow> product_state completion" where
  "ProductForm_onDelete params resp =
    try_catch_finally
      (block
        [ setLoading True,
          axios_request resp DELETE
            (''/api/'' @ interp (params ''storeId'') @ ''/products/'' @ interp (params ''productId'')) None,
          router_refresh,
          router_push (''/'' @ interp (params ''storeId'') @ ''/products''),
          toast_success ''Produk dihapus'' ])
      (toast_error ''Ada sesuatu yang salah'')
      (block [setLoading False, setOpen False])"

text \<open>The submit event of the form: \<^verbatim>\<open>form.handleSubmit(onSubmit)\<close> with the zod resolver.\<close>

definition ProductForm_submit ::
  "(string \<Rightarrow> jsnum) \<Rightarrow> params \<Rightarrow> Product option \<Rightarrow> response \<Rightarrow> product_state \<Rightarrow> product_state completion" where
  "ProductForm_submit S params initialData resp =
    handleSubmit (formSchema_product S) (ProductForm_onSubmit params initialData resp)"

text \<open>
  The markup: every control carries \<^verbatim>\<open>disabled={loading}\<close> except the two checkboxes,
  which have no \<^verbatim>\<open>disabled\<close> prop.
\<close>

definition ProductForm_render :: "Product option \<Rightarrow> product_state \<Rightarrow> view" where
  "ProductForm_render initialData s =
    \<lparr> heading_title = ProductForm_title initialData,
      heading_description = ProductForm_description initialData,
      trash_button = (if initialData \<noteq> None then Some (loading s) else None),
      controls =
        [ (''images'', loading s), (''name'', loading s), (''price'', loading s),
          (''categoryId'', loading s), (''sizeId'', loading s), (''colorId'', loading s),
          (''isFeatured'', False), (''isArchived'', False) ],
      submit_disabled = loading s,
      submit_label = ProductForm_action initialData,
      modal_isOpen = open_modal s,
      modal_loading = loading s \<rparr>"

section \<open>Category form (categories/components/columns.tsx, lines 32-216)\<close>

text \<open>
  Modelled from the spec: the ORM type \<^verbatim>\<open>Category\<close> is not among the sources. The spec's
  data model gives a category an id, a name, a reference to one billboard and timestamps.
\<close>

record Category =
  id :: string
  name :: string
  billboardId :: string
  createdAt :: nat
  updatedAt :: nat

type_synonym category_state = "(category_fields, category_fields) component"

definition CategoryForm_title :: "Category option \<Rightarrow> string" where
  "CategoryForm_title initialData = (if initialData \<noteq> None then ''Edit Kategori'' else ''Buat Kategori'')"

definition CategoryForm_description :: "Category option \<Rightarrow> string" where
  "CategoryForm_description initialData =
    (if initialData \<noteq> None then ''Edit Kategori'' else ''Buat kategori yang baru'')"

definition CategoryForm_toastMessage :: "Category option \<Rightarrow> string" where
  "CategoryForm_toastMessage initialData =
    (if initialData \<noteq> None then ''Kategori diperbarui.'' else ''Kategori berhasil dibuat'')"

definition CategoryForm_action :: "Category option \<Rightarrow> string" where
  "CategoryForm_action initialData = (if initialData \<noteq> None then ''Simpan perubahan'' else ''Buat Baru'')"

text \<open>\<^verbatim>\<open>defaultValues: initialData || { name: '', billboardId: '' }\<close>\<close>

definition CategoryForm_defaultValues :: "Category option \<Rightarrow> category_fields" where
  "CategoryForm_defaultValues initialData =
    (case initialData of
       Some d \<Rightarrow> \<lparr> category_fields.name = Category.name d, billboardId = Category.billboardId d \<rparr>
     | None \<Rightarrow> \<lparr> category_fields.name = '''', billboardId = '''' \<rparr>)"

definition CategoryForm_onSubmit ::
  "params \<Rightarrow> Category option \<Rightarrow> response \<Rightarrow> category_fields \<Rightarrow> category_state \<Rightarrow> category_state completion" where
  "CategoryForm_onSubmit params initialData resp data =
    try_catch_finally
      (block
        [ setLoading True,
          (if initialData \<noteq> None
           then axios_request resp PATCH
                  (''/api/'' @ interp (params ''storeId'') @ ''/categories/'' @ interp (params ''categoryId''))
                  (Some data)
           else axios_request resp POST
                  (''/api/'' @ interp (params ''storeId'') @ ''/categories'') (Some data)),
          router_refresh,
          router_push (''/'' @ interp (params ''storeId'') @ ''/categories''),
          toast_success (CategoryForm_toastMessage initialData) ])
      (toast_error ''Ada sesuatu yang salah'')
      (setLoading False)"

definition CategoryForm_onDelete :: "params \<Rightarrow> response \<Rightarrow> category_state \<Rightarrow> category_state completion" where
  "CategoryForm_onDelete params resp =
    try_catch_finally
      (block
        [ setLoading True,
          axios_request resp DELETE
            (''/api/'' @ interp (params ''storeId'') @ ''/categories/'' @ interp (params ''categoryId'')) None,
          router_refresh,
          router_push (''/'' @ interp (params ''storeId'') @ ''/categories''),
          toast_success ''Kategori dihapus.'' ])
      (toast_error ''Pastikan kamu sudah menghapus semua produk yang menggunakan kategori ini'')
      (block [setLoading False, setOpen False])"

definition CategoryForm_submit ::
  "params \<Rightarrow> Category option \<Rightarrow> response \<Rightarrow> category_state \<Rightarrow> category_state completion" where
  "CategoryForm_submit params initialData resp =
    handleSubmit formSchema_category (CategoryForm_onSubmit params initialData resp)"

definition CategoryForm_render :: "Category option \<Rightarrow> category_state \<Rightarrow> view" where
  "CategoryForm_render initialData s =
    \<lparr> heading_title = CategoryForm_title initialData,
      heading_description = CategoryForm_description initialData,
      trash_button = (if initialData \<noteq> None then Some (loading s) else None),
      controls = [ (''name'', loading s), (''billboardId'', loading s) ],
      submit_disabled = loading s,
      submit_label = CategoryForm_action initialData,
      modal_isOpen = open_modal s,
      modal_loading = loading s \<rparr>"

section \<open>Colour row action (colors/components/cell-action.tsx)\<close>

text \<open>
  Modelled from the spec: the row type \<^verbatim>\<open>ColorColumn\<close> is declared in a file that is not
  among the sources; the spec gives a colour an id, a name, a value and a timestamp. The
  action reads the id only.
\<close>

record ColorColumn =
  id :: string
  name :: string
  hex_value :: string
  createdAt :: string

type_synonym cell_state = "(unit, unit) component"

definition CellAction_onDelete :: "params \<Rightarrow> ColorColumn \<Rightarrow> response \<Rightarrow> cell_state \<Rightarrow> cell_state completion" where
  "CellAction_onDelete params data resp =
    try_catch_finally
      (block
        [ setLoading True,
          axios_request resp DELETE
            (''/api/'' @ interp (params ''storeId'') @ ''/colors/'' @ ColorColumn.id data) None,
          router_refresh,
          toast_success ''Tipe Obat Dihapus.'' ])
      (toast_error ''Pastikan anda sudah menghapus semua Obat yang menggunakan Tipe Obat ini.'')
      (block [setLoading False, setOpen False])"

section \<open>What each handler does, outcome by outcome\<close>

text \<open>The statements of a handler, unfolded in the proofs below.\<close>

lemmas stmt_defs =
  try_catch_finally_def setLoading_def setOpen_def emit_def axios_request_def
  router_refresh_def router_push_def toast_success_def toast_error_def

lemma ProductForm_onSubmit_Resolved:
  "ProductForm_onSubmit params initialData Resolved data s =
     Normal (s\<lparr>loading := False,
               effects := effects s @
                 [ (if initialData \<noteq> None
                    then Request PATCH (''/api/'' @ interp (params ''storeId'') @ ''/products/'' @ interp (params ''productId'')) (Some data)
                    else Request POST (''/api/'' @ interp (params ''storeId'') @ ''/products'') (Some data)),
                   Refresh,
                   Push (''/'' @ interp (params ''storeId'') @ ''/products''),
                   ToastSuccess (ProductForm_toastMessage initialData) ]\<rparr>)"
  by (simp add: ProductForm_onSubmit_def stmt_defs)

lemma ProductForm_onSubmit_Rejected:
  "ProductForm_onSubmit params initialData Rejected data s =
     Normal (s\<lparr>loading := False,
               effects := effects s @
                 [ (if initialData \<noteq> None
                    then Request PATCH (''/api/'' @ interp (params ''storeId'') @ ''/products/'' @ interp (params ''productId'')) (Some data)
                    else Request POST (''/api/'' @ interp (params ''storeId'') @ ''/products'') (Some data)),
                   ToastError ''Ada sesuatu yang salah'' ]\<rparr>)"
  by (simp add: ProductForm_onSubmit_def stmt_defs)

lemma ProductForm_onDelete_Resolved:
  "ProductForm_onDelete params Resolved s =
     Normal (s\<lparr>loading := False, open_modal := False,
               effects := effects s @
                 [ Request DELETE (''/api/'' @ interp (params ''storeId'') @ ''/products/'' @ interp (params ''productId'')) None,
                   Refresh,
                   Push (''/'' @ interp (params ''storeId'') @ ''/products''),
                   ToastSuccess ''Produk dihapus'' ]\<rparr>)"
  by (simp add: ProductForm_onDelete_def stmt_defs)

lemma ProductForm_onDelete_Rejected:
  "ProductForm_onDelete params Rejected s =
     Normal (s\<lparr>loading := False, open_modal := False,
               effects := effects s @
                 [ Request DELETE (''/api/'' @ interp (params ''storeId'') @ ''/products/'' @ interp (params ''productId'')) None,
                   ToastError ''Ada sesuatu yang salah'' ]\<rparr>)"
  by (simp add: ProductForm_onDelete_def stmt_defs)

lemma CategoryForm_onSubmit_Resolved:
  "CategoryForm_onSubmit params initialData Resolved data s =
     Normal (s\<lparr>loading := False,
               effects := effects s @
                 [ (if initialData \<noteq> None
                    then Request PATCH (''/api/'' @ interp (params ''storeId'') @ ''/categories/'' @ interp (params ''categoryId'')) (Some data)
                    else Request POST (''/api/'' @ interp (params ''storeId'') @ ''/categories'') (Some data)),
                   Refresh,
                   Push (''/'' @ interp (params ''storeId'') @ ''/categories''),
                   ToastSuccess (CategoryForm_toastMessage initialData) ]\<rparr>)"
  by (simp add: CategoryForm_onSubmit_def stmt_defs)

lemma CategoryForm_onSubmit_Rejected:
  "CategoryForm_onSubmit params initialData Rejected data s =
     Normal (s\<lparr>loading := False,
               effects := effects s @
                 [ (if initialData \<noteq> None
                    then Request PATCH (''/api/'' @ interp (params ''storeId'') @ ''/categories/'' @ interp (params ''categoryId'')) (Some data)
                    else Request POST (''/api/'' @ interp (params ''storeId'') @ ''/categories'') (Some data)),
                   ToastError ''Ada sesuatu yang salah'' ]\<rparr>)"
  by (simp add: CategoryForm_onSubmit_def stmt_defs)

lemma CategoryForm_onDelete_Resolved:
  "CategoryForm_onDelete params Resolved s =
     Normal (s\<lparr>loading := False, open_modal := False,
               effects := effects s @
                 [ Request DELETE (''/api/'' @ interp (params ''storeId'') @ ''/categories/'' @ interp (params ''categoryId'')) None,
                   Refresh,
                   Push (''/'' @ interp (params ''storeId'') @ ''/categories''),
                   ToastSuccess ''Kategori dihapus.'' ]\<rparr>)"
  by (simp add: CategoryForm_onDelete_def stmt_defs)

lemma CategoryForm_onDelete_Rejected:
  "CategoryForm_onDelete params Rejected s =
     Normal (s\<lparr>loading := False, open_modal := False,
               effects := effects s @
                 [ Request DELETE (''/api/'' @ interp (params ''storeId'') @ ''/categories/'' @ interp (params ''categoryId'')) None,
                   ToastError ''Pastikan kamu sudah menghapus semua produk yang menggunakan kategori ini'' ]\<rparr>)"
  by (simp add: CategoryForm_onDelete_def stmt_defs)

lemma CellAction_onDelete_Resolved:
  "CellAction_onDelete params data Resolved s =
     Normal (s\<lparr>loading := False, open_modal := False,
               effects := effects s @
                 [ Request DELETE (''/api/'' @ interp (params ''storeId'') @ ''/colors/'' @ ColorColumn.id data) None,
                   Refresh,
                   ToastSuccess ''Tipe Obat Dihapus.'' ]\<rparr>)"
  by (simp add: CellAction_onDelete_def stmt_defs)

lemma CellAction_onDelete_Rejected:
  "CellAction_onDelete params data Rejected s =
     Normal (s\<lparr>loading := False, open_modal := False,
               effects := effects s @
                 [ Request DELETE (''/api/'' @ interp (params ''storeId'') @ ''/colors/'' @ ColorColumn.id data) None,
                   ToastError ''Pastikan anda sudah menghapus semua Obat yang menggunakan Tipe Obat ini.'' ]\<rparr>)"
  by (simp add: CellAction_onDelete_def stmt_defs)

section \<open>What the schemas accept\<close>

lemma z_string_min_1:
  "z_string_min 1 s = (if s = [] then [too_small] else [])"
  "z_string_min (Suc 0) s = (if s = [] then [too_small] else [])"
  by (cases s; simp add: z_string_min_def)+

lemma price_issues:
  "issues_of (z_coerce_number_min S 1 x) =
     (case Number_js S x of NaN \<Rightarrow> [invalid_type] | NegInf \<Rightarrow> [too_small]
        | Fin r \<Rightarrow> (if r < 1 then [too_small] else []) | PosInf \<Rightarrow> [])"
  by (cases "Number_js S x") (auto simp: z_coerce_number_min_def Let_def issues_of_def)

lemma price_no_issue_Inr:
  "issues_of (z_coerce_number_min S 1 x) = [] \<Longrightarrow> z_coerce_number_min S 1 x = Inr (Number_js S x)"
  by (auto simp: z_coerce_number_min_def Let_def issues_of_def split: if_splits)

lemma formSchema_product_Inl:
  "formSchema_product_issues S v \<noteq> [] \<Longrightarrow> formSchema_product S v = Inl (formSchema_product_issues S v)"
  by (simp add: formSchema_product_def split: list.splits sum.splits)

lemma formSchema_product_Inr:
  "formSchema_product_issues S v = [] \<Longrightarrow>
   formSchema_product S v =
     Inr \<lparr> product_fields.name = product_fields.name v, images = product_fields.images v,
           price = Number_js S (product_fields.price v),
           categoryId = product_fields.categoryId v,
           colorId = product_fields.colorId v, sizeId = product_fields.sizeId v,
           isFeatured = product_fields.isFeatured v, isArchived = product_fields.isArchived v \<rparr>"
proof -
  assume a: "formSchema_product_issues S v = []"
  then have "issues_of (z_coerce_number_min S 1 (product_fields.price v)) = []"
    by (simp add: formSchema_product_issues_def at_path_def)
  then have "z_coerce_number_min S 1 (product_fields.price v) = Inr (Number_js S (product_fields.price v))"
    by (rule price_no_issue_Inr)
  with a show ?thesis by (simp add: formSchema_product_def)
qed

lemma formSchema_product_issues_Nil_iff:
  "formSchema_product_issues S v = [] \<longleftrightarrow>
     product_fields.name v \<noteq> [] \<and> product_fields.categoryId v \<noteq> [] \<and>
     product_fields.colorId v \<noteq> [] \<and> product_fields.sizeId v \<noteq> [] \<and>
     (Number_js S (product_fields.price v) = PosInf \<or>
      (\<exists>r. Number_js S (product_fields.price v) = Fin r \<and> 1 \<le> r))"
  by (cases "Number_js S (product_fields.price v)")
     (auto simp: formSchema_product_issues_def at_path_def z_string_min_1 price_issues)

lemma formSchema_category_issues_Nil_iff:
  "formSchema_category_issues v = [] \<longleftrightarrow>
     category_fields.name v \<noteq> [] \<and> category_fields.billboardId v \<noteq> []"
  by (auto simp: formSchema_category_issues_def at_path_def z_string_min_1)

lemma fst_at_path: "fst ` set (at_path p cs) = (if cs = [] then {} else {p})"
  by (cases cs) (auto simp: at_path_def image_iff)

lemma price_path_iff:
  "''price'' \<in> fst ` set (formSchema_product_issues S v) \<longleftrightarrow>
     issues_of (z_coerce_number_min S 1 (product_fields.price v)) \<noteq> []"
  by (simp add: formSchema_product_issues_def image_Un fst_at_path)

section \<open>Observations on effects and on submission\<close>

lemma toasts_append: "toasts (xs @ ys) = toasts xs @ toasts ys"
  by (simp add: toasts_def)

lemma navigations_append: "navigations (xs @ ys) = navigations xs @ navigations ys"
  by (simp add: navigations_def)

lemma requests_append: "requests (xs @ ys) = requests xs @ requests ys"
  by (simp add: requests_def)

lemma toasts_simps:
  "toasts [] = []"
  "toasts (Request m u b # es) = toasts es"
  "toasts (Refresh # es) = toasts es"
  "toasts (Push u # es) = toasts es"
  "toasts (ToastSuccess t # es) = ToastSuccess t # toasts es"
  "toasts (ToastError t # es) = ToastError t # toasts es"
  by (simp_all add: toasts_def)

lemma navigations_simps:
  "navigations [] = []"
  "navigations (Request m u b # es) = navigations es"
  "navigations (Refresh # es) = navigations es"
  "navigations (Push u # es) = u # navigations es"
  "navigations (ToastSuccess t # es) = navigations es"
  "navigations (ToastError t # es) = navigations es"
  by (simp_all add: navigations_def)

lemma requests_simps:
  "requests [] = []"
  "requests (Request m u b # es) = Request m u b # requests es"
  "requests (Refresh # es) = requests es"
  "requests (Push u # es) = requests es"
  "requests (ToastSuccess t # es) = requests es"
  "requests (ToastError t # es) = requests es"
  by (simp_all add: requests_def)

lemmas handler_results =
  ProductForm_onSubmit_Resolved ProductForm_onSubmit_Rejected
  ProductForm_onDelete_Resolved ProductForm_onDelete_Rejected
  CategoryForm_onSubmit_Resolved CategoryForm_onSubmit_Rejected
  CategoryForm_onDelete_Resolved CategoryForm_onDelete_Rejected
  CellAction_onDelete_Resolved CellAction_onDelete_Rejected

lemmas effect_simps =
  toasts_append navigations_append requests_append toasts_simps navigations_simps requests_simps

lemma handleSubmit_field_values:
  "(\<And>d t. field_values (state_of (onValid d t)) = field_values t) \<Longrightarrow>
   field_values (state_of (handleSubmit resolver onValid s)) = field_values s"
  by (simp add: handleSubmit_def split: sum.splits)

lemma handleSubmit_Inl:
  "resolver (field_values s) = Inl errs \<Longrightarrow>
   handleSubmit resolver onValid s = Normal (s\<lparr>field_errors := errs\<rparr>)"
  by (simp add: handleSubmit_def)

lemma handleSubmit_Inr:
  "resolver (field_values s) = Inr d \<Longrightarrow>
   handleSubmit resolver onValid s = onValid d (s\<lparr>field_errors := []\<rparr>)"
  by (simp add: handleSubmit_def)

lemma product_paths:
  "fst ` set (formSchema_product_issues S v) \<subseteq> {''name'', ''price'', ''categoryId'', ''colorId'', ''sizeId''}"
  by (auto simp: formSchema_product_issues_def fst_at_path image_Un split: if_splits)

lemma category_paths:
  "fst ` set (formSchema_category_issues v) \<subseteq> {''name'', ''billboardId''}"
  by (auto simp: formSchema_category_issues_def fst_at_path image_Un split: if_splits)

lemma formSchema_category_Inl:
  "formSchema_category_issues v \<noteq> [] \<Longrightarrow> formSchema_category v = Inl (formSchema_category_issues v)"
  by (simp add: formSchema_category_def)

lemma formSchema_category_Inr:
  "formSchema_category_issues v = [] \<Longrightarrow> formSchema_category v = Inr v"
  by (simp add: formSchema_category_def)

section \<open>Claims\<close>

text \<open>
  C1 (what the code does). When the DELETE request is rejected, the category form and the
  colour row action show a message that asks to remove the dependent records first. The
  product form does not: its delete handler shows \<^verbatim>\<open>Ada sesuatu yang salah\<close>
  ("something went wrong"), the same generic message as a failed submit.
\<close>

theorem ProductForm_onDelete_failure_toast_is_generic:
  "toasts (effects (state_of (ProductForm_onDelete params Rejected s))) =
     toasts (effects s) @ [ToastError ''Ada sesuatu yang salah''] \<and>
   toasts (effects (state_of (ProductForm_onSubmit params initialData Rejected data s))) =
     toasts (effects s) @ [ToastError ''Ada sesuatu yang salah''] \<and>
   toasts (effects (state_of (CategoryForm_onDelete params Rejected c))) =
     toasts (effects c) @
       [ToastError ''Pastikan kamu sudah menghapus semua produk yang menggunakan kategori ini''] \<and>
   toasts (effects (state_of (CellAction_onDelete params row Rejected a))) =
     toasts (effects a) @
       [ToastError ''Pastikan anda sudah menghapus semua Obat yang menggunakan Tipe Obat ini.'']"
  by (simp add: handler_results effect_simps)

text \<open>
  C2, as stated, fails: a price of 0.5 coerces to a number greater than zero and is
  rejected with \<open>too_small\<close>, alone and in an otherwise valid product.
\<close>

theorem price_one_half_rejected:
  "\<forall>S. js_lt (Fin 0) (Number_js S (JNum (Fin (1/2)))) \<and>
       z_coerce_number_min S 1 (JNum (Fin (1/2))) = Inl [too_small] \<and>
       formSchema_product S
         \<lparr> product_fields.name = ''Paracetamol'', images = [], price = JNum (Fin (1/2)),
           categoryId = ''c1'', colorId = ''k1'', sizeId = ''z1'',
           isFeatured = Some False, isArchived = Some False \<rparr> =
         Inl [(''price'', too_small)]"
  by (simp add: Number_js_def z_coerce_number_min_def formSchema_product_def
      formSchema_product_issues_def at_path_def z_string_min_def issues_of_def)

text \<open>
  C2 (amended). The price is accepted exactly when its coercion is a number, not \<open>NaN\<close>,
  that is at least 1: a finite value \<open>r\<close> with \<open>1 \<le> r\<close>, or positive infinity. The schema
  reports an issue at the path \<^verbatim>\<open>price\<close> exactly in the other cases.
\<close>

theorem price_accepted_iff_at_least_one:
  "((\<exists>n. z_coerce_number_min S 1 (product_fields.price v) = Inr n) \<longleftrightarrow>
      Number_js S (product_fields.price v) = PosInf \<or>
      (\<exists>r. Number_js S (product_fields.price v) = Fin r \<and> 1 \<le> r)) \<and>
   (''price'' \<in> fst ` set (formSchema_product_issues S v) \<longleftrightarrow>
      \<not> (Number_js S (product_fields.price v) = PosInf \<or>
         (\<exists>r. Number_js S (product_fields.price v) = Fin r \<and> 1 \<le> r)))"
proof (intro conjI)
  show "(\<exists>n. z_coerce_number_min S 1 (product_fields.price v) = Inr n) \<longleftrightarrow>
      Number_js S (product_fields.price v) = PosInf \<or>
      (\<exists>r. Number_js S (product_fields.price v) = Fin r \<and> 1 \<le> r)"
    by (cases "Number_js S (product_fields.price v)")
       (auto simp: z_coerce_number_min_def Let_def)
  show "''price'' \<in> fst ` set (formSchema_product_issues S v) \<longleftrightarrow>
      \<not> (Number_js S (product_fields.price v) = PosInf \<or>
         (\<exists>r. Number_js S (product_fields.price v) = Fin r \<and> 1 \<le> r))"
    by (cases "Number_js S (product_fields.price v)")
       (auto simp: price_path_iff price_issues)
qed

text \<open>
  C3, as stated, fails for the colour row action: a successful delete refreshes and shows
  a toast, and pushes no route.
\<close>

theorem CellAction_onDelete_success_pushes_nothing:
  "effects (state_of (CellAction_onDelete [''storeId'' \<mapsto> ''s1'']
      \<lparr> ColorColumn.id = ''c1'', name = ''Tablet'', hex_value = ''#ffffff'', createdAt = ''2024-01-01'' \<rparr>
      Resolved
      \<lparr> loading = False, open_modal = True, field_values = (), field_errors = [], effects = [] \<rparr>)) =
     [Request DELETE ''/api/s1/colors/c1'' None, Refresh, ToastSuccess ''Tipe Obat Dihapus.''] \<and>
   navigations (effects (state_of (CellAction_onDelete [''storeId'' \<mapsto> ''s1'']
      \<lparr> ColorColumn.id = ''c1'', name = ''Tablet'', hex_value = ''#ffffff'', createdAt = ''2024-01-01'' \<rparr>
      Resolved
      \<lparr> loading = False, open_modal = True, field_values = (), field_errors = [], effects = [] \<rparr>))) = []"
  by (simp add: handler_results effect_simps interp_def)

text \<open>
  C3 (amended). For the product form and the category form, a submit or delete whose
  request succeeds pushes exactly one route, the list route of the resource, and one whose
  request fails pushes none. The colour row delete pushes no route, whatever the outcome.
  No submit and no delete changes the values held by the form.
\<close>

theorem handlers_navigation_and_values:
  "navigations (effects (state_of (ProductForm_onSubmit params initialData Resolved data s))) =
     navigations (effects s) @ [''/'' @ interp (params ''storeId'') @ ''/products''] \<and>
   navigations (effects (state_of (ProductForm_onSubmit params initialData Rejected data s))) =
     navigations (effects s) \<and>
   navigations (effects (state_of (ProductForm_onDelete params Resolved s))) =
     navigations (effects s) @ [''/'' @ interp (params ''storeId'') @ ''/products''] \<and>
   navigations (effects (state_of (ProductForm_onDelete params Rejected s))) =
     navigations (effects s) \<and>
   navigations (effects (state_of (CategoryForm_onSubmit params initialCategory Resolved cdata c))) =
     navigations (effects c) @ [''/'' @ interp (params ''storeId'') @ ''/categories''] \<and>
   navigations (effects (state_of (CategoryForm_onSubmit params initialCategory Rejected cdata c))) =
     navigations (effects c) \<and>
   navigations (effects (state_of (CategoryForm_onDelete params Resolved c))) =
     navigations (effects c) @ [''/'' @ interp (params ''storeId'') @ ''/categories''] \<and>
   navigations (effects (state_of (CategoryForm_onDelete params Rejected c))) =
     navigations (effects c) \<and>
   navigations (effects (state_of (CellAction_onDelete params row resp a))) =
     navigations (effects a) \<and>
   field_values (state_of (ProductForm_submit S params initialData resp s)) = field_values s \<and>
   field_values (state_of (ProductForm_onDelete params resp s)) = field_values s \<and>
   field_values (state_of (CategoryForm_submit params initialCategory resp c)) = field_values c \<and>
   field_values (state_of (CategoryForm_onDelete params resp c)) = field_values c"
proof -
  have p: "\<And>d t. field_values (state_of (ProductForm_onSubmit params initialData resp d t)) = field_values t"
    by (cases resp) (simp_all add: handler_results)
  have q: "\<And>d t. field_values (state_of (CategoryForm_onSubmit params initialCategory resp d t)) = field_values t"
    by (cases resp) (simp_all add: handler_results)
  have 1: "field_values (state_of (ProductForm_submit S params initialData resp s)) = field_values s"
    unfolding ProductForm_submit_def by (rule handleSubmit_field_values) (rule p)
  have 2: "field_values (state_of (CategoryForm_submit params initialCategory resp c)) = field_values c"
    unfolding CategoryForm_submit_def by (rule handleSubmit_field_values) (rule q)
  have 3: "field_values (state_of (ProductForm_onDelete params resp s)) = field_values s"
    by (cases resp) (simp_all add: handler_results)
  have 4: "field_values (state_of (CategoryForm_onDelete params resp c)) = field_values c"
    by (cases resp) (simp_all add: handler_results)
  have 5: "navigations (effects (state_of (CellAction_onDelete params row resp a))) =
     navigations (effects a)"
    by (cases resp) (simp_all add: handler_results effect_simps)
  show ?thesis
    by (simp add: 1 2 3 4 5) (simp add: handler_results effect_simps)
qed

text \<open>
  C4 (what the code does). While \<open>loading\<close> is set, the submit button and six of the
  eight field controls of the product form are disabled; the checkboxes \<^verbatim>\<open>isFeatured\<close>
  and \<^verbatim>\<open>isArchived\<close> stay enabled. In the category form every control is disabled.
\<close>

theorem ProductForm_checkboxes_enabled_while_loading:
  "controls (ProductForm_render initialData (s\<lparr>loading := True\<rparr>)) =
     [ (''images'', True), (''name'', True), (''price'', True), (''categoryId'', True),
       (''sizeId'', True), (''colorId'', True), (''isFeatured'', False), (''isArchived'', False) ] \<and>
   submit_disabled (ProductForm_render initialData (s\<lparr>loading := True\<rparr>)) = True \<and>
   controls (CategoryForm_render initialCategory (c\<lparr>loading := True\<rparr>)) =
     [ (''name'', True), (''billboardId'', True) ] \<and>
   submit_disabled (CategoryForm_render initialCategory (c\<lparr>loading := True\<rparr>)) = True"
  by (simp add: ProductForm_render_def CategoryForm_render_def)

text \<open>
  C5. A submit of the product form is blocked for every input the schema rejects, and these
  are exactly the inputs with an empty name, an empty reference identifier (category,
  colour, size), or a price whose coercion is \<open>NaN\<close> or below 1 (so also the empty price
  field and the default 0). The same holds for the category form with an empty name or
  billboard identifier. A blocked submit does not reach the submit handler: the only
  change of the state is that the issues of the schema, each at the path of a field, become
  the field errors; no effect is issued, so no request and no toast.
\<close>

theorem validation_failure_blocks_request:
  "(formSchema_product_issues S (field_values s) \<noteq> [] \<longleftrightarrow>
      product_fields.name (field_values s) = [] \<or> product_fields.categoryId (field_values s) = [] \<or>
      product_fields.colorId (field_values s) = [] \<or> product_fields.sizeId (field_values s) = [] \<or>
      Number_js S (product_fields.price (field_values s)) = NaN \<or>
      js_lt (Number_js S (product_fields.price (field_values s))) (Fin 1)) \<and>
   (product_fields.name (field_values s) = [] \<or> product_fields.categoryId (field_values s) = [] \<or>
    product_fields.colorId (field_values s) = [] \<or> product_fields.sizeId (field_values s) = [] \<or>
    Number_js S (product_fields.price (field_values s)) = NaN \<or>
    js_lt (Number_js S (product_fields.price (field_values s))) (Fin 1)
    \<longrightarrow>
      formSchema_product_issues S (field_values s) \<noteq> [] \<and>
      fst ` set (formSchema_product_issues S (field_values s)) \<subseteq>
        {''name'', ''price'', ''categoryId'', ''colorId'', ''sizeId''} \<and>
      ProductForm_submit S params initialData resp s =
        Normal (s\<lparr>field_errors := formSchema_product_issues S (field_values s)\<rparr>) \<and>
      effects (state_of (ProductForm_submit S params initialData resp s)) = effects s) \<and>
   (formSchema_category_issues (field_values c) \<noteq> [] \<longleftrightarrow>
      category_fields.name (field_values c) = [] \<or> category_fields.billboardId (field_values c) = []) \<and>
   (category_fields.name (field_values c) = [] \<or> category_fields.billboardId (field_values c) = []
    \<longrightarrow>
      formSchema_category_issues (field_values c) \<noteq> [] \<and>
      fst ` set (formSchema_category_issues (field_values c)) \<subseteq> {''name'', ''billboardId''} \<and>
      CategoryForm_submit params initialCategory resp c =
        Normal (c\<lparr>field_errors := formSchema_category_issues (field_values c)\<rparr>) \<and>
      effects (state_of (CategoryForm_submit params initialCategory resp c)) = effects c)"
proof -
  let ?bad = "product_fields.name (field_values s) = [] \<or> product_fields.categoryId (field_values s) = [] \<or>
      product_fields.colorId (field_values s) = [] \<or> product_fields.sizeId (field_values s) = [] \<or>
      Number_js S (product_fields.price (field_values s)) = NaN \<or>
      js_lt (Number_js S (product_fields.price (field_values s))) (Fin 1)"
  let ?cbad = "category_fields.name (field_values c) = [] \<or> category_fields.billboardId (field_values c) = []"
  have price: "(Number_js S (product_fields.price (field_values s)) = PosInf \<or>
      (\<exists>r. Number_js S (product_fields.price (field_values s)) = Fin r \<and> 1 \<le> r)) \<longleftrightarrow>
      \<not> (Number_js S (product_fields.price (field_values s)) = NaN \<or>
         js_lt (Number_js S (product_fields.price (field_values s))) (Fin 1))"
    by (cases "Number_js S (product_fields.price (field_values s))") auto
  have pchar: "formSchema_product_issues S (field_values s) \<noteq> [] \<longleftrightarrow> ?bad"
    unfolding formSchema_product_issues_Nil_iff price by blast
  have cchar: "formSchema_category_issues (field_values c) \<noteq> [] \<longleftrightarrow> ?cbad"
    unfolding formSchema_category_issues_Nil_iff by blast
  have pblock: "formSchema_product_issues S (field_values s) \<noteq> [] \<and>
      fst ` set (formSchema_product_issues S (field_values s)) \<subseteq>
        {''name'', ''price'', ''categoryId'', ''colorId'', ''sizeId''} \<and>
      ProductForm_submit S params initialData resp s =
        Normal (s\<lparr>field_errors := formSchema_product_issues S (field_values s)\<rparr>) \<and>
      effects (state_of (ProductForm_submit S params initialData resp s)) = effects s"
    if bad: ?bad
  proof -
    from bad pchar have ne: "formSchema_product_issues S (field_values s) \<noteq> []"
      by blast
    then have r: "ProductForm_submit S params initialData resp s =
        Normal (s\<lparr>field_errors := formSchema_product_issues S (field_values s)\<rparr>)"
      unfolding ProductForm_submit_def
      by (intro handleSubmit_Inl formSchema_product_Inl)
    then have "effects (state_of (ProductForm_submit S params initialData resp s)) = effects s"
      by simp
    with ne r product_paths [of S "field_values s"] show ?thesis
      by blast
  qed
  have cblock: "formSchema_category_issues (field_values c) \<noteq> [] \<and>
      fst ` set (formSchema_category_issues (field_values c)) \<subseteq> {''name'', ''billboardId''} \<and>
      CategoryForm_submit params initialCategory resp c =
        Normal (c\<lparr>field_errors := formSchema_category_issues (field_values c)\<rparr>) \<and>
      effects (state_of (CategoryForm_submit params initialCategory resp c)) = effects c"
    if bad: ?cbad
  proof -
    from bad cchar have ne: "formSchema_category_issues (field_values c) \<noteq> []"
      by blast
    then have r: "CategoryForm_submit params initialCategory resp c =
        Normal (c\<lparr>field_errors := formSchema_category_issues (field_values c)\<rparr>)"
      unfolding CategoryForm_submit_def
      by (intro handleSubmit_Inl formSchema_category_Inl)
    then have "effects (state_of (CategoryForm_submit params initialCategory resp c)) = effects c"
      by simp
    with ne r category_paths [of "field_values c"] show ?thesis
      by blast
  qed
  from pchar cchar pblock cblock show ?thesis
    by blast
qed

text \<open>
  A product form whose fields are filled in except the price, left at its default 0, and a
  category form with no billboard chosen: both submits end with field errors and an empty
  list of effects.
\<close>

theorem validation_failure_blocks_request_witness:
  "\<forall>S. ProductForm_submit S [''storeId'' \<mapsto> ''s1''] None Resolved
      \<lparr> loading = False, open_modal = False,
        field_values =
          \<lparr> product_fields.name = ''Paracetamol'', images = [], price = JNum (Fin 0),
            categoryId = ''c1'', colorId = ''k1'', sizeId = ''z1'',
            isFeatured = Some False, isArchived = Some False \<rparr>,
        field_errors = [], effects = [] \<rparr> =
    Normal
      \<lparr> loading = False, open_modal = False,
        field_values =
          \<lparr> product_fields.name = ''Paracetamol'', images = [], price = JNum (Fin 0),
            categoryId = ''c1'', colorId = ''k1'', sizeId = ''z1'',
            isFeatured = Some False, isArchived = Some False \<rparr>,
        field_errors = [(''price'', too_small)], effects = [] \<rparr> \<and>
    CategoryForm_submit [''storeId'' \<mapsto> ''s1''] None Resolved
      \<lparr> loading = False, open_modal = False,
        field_values = \<lparr> category_fields.name = ''Vitamins'', billboardId = '''' \<rparr>,
        field_errors = [], effects = [] \<rparr> =
    Normal
      \<lparr> loading = False, open_modal = False,
        field_values = \<lparr> category_fields.name = ''Vitamins'', billboardId = '''' \<rparr>,
        field_errors = [(''billboardId'', too_small)], effects = [] \<rparr>"
proof
  fix S
  let ?s = "\<lparr> loading = False, open_modal = False,
        field_values =
          \<lparr> product_fields.name = ''Paracetamol'', images = [], price = JNum (Fin 0),
            categoryId = ''c1'', colorId = ''k1'', sizeId = ''z1'',
            isFeatured = Some False, isArchived = Some False \<rparr>,
        field_errors = [], effects = [] \<rparr> :: product_state"
  let ?c = "\<lparr> loading = False, open_modal = False,
        field_values = \<lparr> category_fields.name = ''Vitamins'', billboardId = '''' \<rparr>,
        field_errors = [], effects = [] \<rparr> :: category_state"
  have hp: "product_fields.name (field_values ?s) = [] \<or> product_fields.categoryId (field_values ?s) = [] \<or>
    product_fields.colorId (field_values ?s) = [] \<or> product_fields.sizeId (field_values ?s) = [] \<or>
    Number_js S (product_fields.price (field_values ?s)) = NaN \<or>
    js_lt (Number_js S (product_fields.price (field_values ?s))) (Fin 1)"
    by (simp add: Number_js_def)
  have hc: "category_fields.name (field_values ?c) = [] \<or> category_fields.billboardId (field_values ?c) = []"
    by simp
  from validation_failure_blocks_request [of S ?s "[''storeId'' \<mapsto> ''s1'']" None Resolved ?c None] hp hc
  have "ProductForm_submit S [''storeId'' \<mapsto> ''s1''] None Resolved ?s =
        Normal (?s\<lparr>field_errors := formSchema_product_issues S (field_values ?s)\<rparr>)"
    and "CategoryForm_submit [''storeId'' \<mapsto> ''s1''] None Resolved ?c =
        Normal (?c\<lparr>field_errors := formSchema_category_issues (field_values ?c)\<rparr>)"
    by blast+
  then show "ProductForm_submit S [''storeId'' \<mapsto> ''s1''] None Resolved ?s =
    Normal
      \<lparr> loading = False, open_modal = False,
        field_values =
          \<lparr> product_fields.name = ''Paracetamol'', images = [], price = JNum (Fin 0),
            categoryId = ''c1'', colorId = ''k1'', sizeId = ''z1'',
            isFeatured = Some False, isArchived = Some False \<rparr>,
        field_errors = [(''price'', too_small)], effects = [] \<rparr> \<and>
    CategoryForm_submit [''storeId'' \<mapsto> ''s1''] None Resolved ?c =
    Normal
      \<lparr> loading = False, open_modal = False,
        field_values = \<lparr> category_fields.name = ''Vitamins'', billboardId = '''' \<rparr>,
        field_errors = [(''billboardId'', too_small)], effects = [] \<rparr>"
    by (simp add: formSchema_product_issues_def formSchema_category_issues_def at_path_def
        z_string_min_def z_coerce_number_min_def issues_of_def Number_js_def)
qed

text \<open>
  C6. In both forms the title, the description, the success toast and the label of the
  submit button depend on \<open>initialData\<close> only through its being \<open>None\<close> or not. With
  a record the submit sends one PATCH to the URL of the record (its identifier is the
  route parameter) and the default values are the fields of the record; without one it
  sends one POST to the URL of the collection and the default values are empty.
\<close>

theorem initialData_selects_mode:
  "ProductForm_title (Some d) = ''Edit Produk'' \<and> ProductForm_title None = ''Buat Produk Baru'' \<and>
   ProductForm_description (Some d) = ''Edit produk'' \<and> ProductForm_description None = ''Buat Produk Baru'' \<and>
   ProductForm_toastMessage (Some d) = ''Produk di Perbarui.'' \<and>
   ProductForm_toastMessage None = ''Produk berhasil dibuat'' \<and>
   ProductForm_action (Some d) = ''Simpan Perubahan'' \<and> ProductForm_action None = ''Buat Baru'' \<and>
   heading_title (ProductForm_render initialData s) = ProductForm_title initialData \<and>
   heading_description (ProductForm_render initialData s) = ProductForm_description initialData \<and>
   submit_label (ProductForm_render initialData s) = ProductForm_action initialData \<and>
   effects (state_of (ProductForm_onSubmit params (Some d) Resolved data s)) =
     effects s @
       [ Request PATCH (''/api/'' @ interp (params ''storeId'') @ ''/products/'' @ interp (params ''productId''))
           (Some data),
         Refresh, Push (''/'' @ interp (params ''storeId'') @ ''/products''),
         ToastSuccess ''Produk di Perbarui.'' ] \<and>
   effects (state_of (ProductForm_onSubmit params None Resolved data s)) =
     effects s @
       [ Request POST (''/api/'' @ interp (params ''storeId'') @ ''/products'') (Some data),
         Refresh, Push (''/'' @ interp (params ''storeId'') @ ''/products''),
         ToastSuccess ''Produk berhasil dibuat'' ] \<and>
   requests (effects (state_of (ProductForm_onSubmit params (Some d) resp data s))) =
     requests (effects s) @
       [ Request PATCH (''/api/'' @ interp (params ''storeId'') @ ''/products/'' @ interp (params ''productId''))
           (Some data) ] \<and>
   requests (effects (state_of (ProductForm_onSubmit params None resp data s))) =
     requests (effects s) @
       [ Request POST (''/api/'' @ interp (params ''storeId'') @ ''/products'') (Some data) ] \<and>
   ProductForm_defaultValues P (Some d) =
     \<lparr> product_fields.name = Product.name d, images = Product.images d,
       price = JNum (P (Product.price d)),
       categoryId = Product.categoryId d, colorId = Product.colorId d, sizeId = Product.sizeId d,
       isFeatured = Some (Product.isFeatured d), isArchived = Some (Product.isArchived d) \<rparr> \<and>
   ProductForm_defaultValues P None =
     \<lparr> product_fields.name = '''', images = [], price = JNum (Fin 0),
       categoryId = '''', colorId = '''', sizeId = '''',
       isFeatured = Some False, isArchived = Some False \<rparr> \<and>
   CategoryForm_title (Some k) = ''Edit Kategori'' \<and> CategoryForm_title None = ''Buat Kategori'' \<and>
   CategoryForm_description (Some k) = ''Edit Kategori'' \<and>
   CategoryForm_description None = ''Buat kategori yang baru'' \<and>
   CategoryForm_toastMessage (Some k) = ''Kategori diperbarui.'' \<and>
   CategoryForm_toastMessage None = ''Kategori berhasil dibuat'' \<and>
   CategoryForm_action (Some k) = ''Simpan perubahan'' \<and> CategoryForm_action None = ''Buat Baru'' \<and>
   heading_title (CategoryForm_render initialCategory c) = CategoryForm_title initialCategory \<and>
   heading_description (CategoryForm_render initialCategory c) = CategoryForm_description initialCategory \<and>
   submit_label (CategoryForm_render initialCategory c) = CategoryForm_action initialCategory \<and>
   effects (state_of (CategoryForm_onSubmit params (Some k) Resolved cdata c)) =
     effects c @
       [ Request PATCH (''/api/'' @ interp (params ''storeId'') @ ''/categories/'' @ interp (params ''categoryId''))
           (Some cdata),
         Refresh, Push (''/'' @ interp (params ''storeId'') @ ''/categories''),
         ToastSuccess ''Kategori diperbarui.'' ] \<and>
   effects (state_of (CategoryForm_onSubmit params None Resolved cdata c)) =
     effects c @
       [ Request POST (''/api/'' @ interp (params ''storeId'') @ ''/categories'') (Some cdata),
         Refresh, Push (''/'' @ interp (params ''storeId'') @ ''/categories''),
         ToastSuccess ''Kategori berhasil dibuat'' ] \<and>
   requests (effects (state_of (CategoryForm_onSubmit params (Some k) resp cdata c))) =
     requests (effects c) @
       [ Request PATCH (''/api/'' @ interp (params ''storeId'') @ ''/categories/'' @ interp (params ''categoryId''))
           (Some cdata) ] \<and>
   requests (effects (state_of (CategoryForm_onSubmit params None resp cdata c))) =
     requests (effects c) @
       [ Request POST (''/api/'' @ interp (params ''storeId'') @ ''/categories'') (Some cdata) ] \<and>
   CategoryForm_defaultValues (Some k) =
     \<lparr> category_fields.name = Category.name k, billboardId = Category.billboardId k \<rparr> \<and>
   CategoryForm_defaultValues None = \<lparr> category_fields.name = '''', billboardId = '''' \<rparr>"
proof -
  have labels:
    "ProductForm_title (Some d) = ''Edit Produk''" "ProductForm_title None = ''Buat Produk Baru''"
    "ProductForm_description (Some d) = ''Edit produk''" "ProductForm_description None = ''Buat Produk Baru''"
    "ProductForm_toastMessage (Some d) = ''Produk di Perbarui.''"
    "ProductForm_toastMessage None = ''Produk berhasil dibuat''"
    "ProductForm_action (Some d) = ''Simpan Perubahan''" "ProductForm_action None = ''Buat Baru''"
    "CategoryForm_title (Some k) = ''Edit Kategori''" "CategoryForm_title None = ''Buat Kategori''"
    "CategoryForm_description (Some k) = ''Edit Kategori''"
    "CategoryForm_description None = ''Buat kategori yang baru''"
    "CategoryForm_toastMessage (Some k) = ''Kategori diperbarui.''"
    "CategoryForm_toastMessage None = ''Kategori berhasil dibuat''"
    "CategoryForm_action (Some k) = ''Simpan perubahan''" "CategoryForm_action None = ''Buat Baru''"
    by (simp_all add: ProductForm_title_def ProductForm_description_def ProductForm_toastMessage_def
        ProductForm_action_def CategoryForm_title_def CategoryForm_description_def
        CategoryForm_toastMessage_def CategoryForm_action_def)
  have rendered:
    "heading_title (ProductForm_render initialData s) = ProductForm_title initialData"
    "heading_description (ProductForm_render initialData s) = ProductForm_description initialData"
    "submit_label (ProductForm_render initialData s) = ProductForm_action initialData"
    "heading_title (CategoryForm_render initialCategory c) = CategoryForm_title initialCategory"
    "heading_description (CategoryForm_render initialCategory c) = CategoryForm_description initialCategory"
    "submit_label (CategoryForm_render initialCategory c) = CategoryForm_action initialCategory"
    by (simp_all add: ProductForm_render_def CategoryForm_render_def)
  have defaults:
    "ProductForm_defaultValues P (Some d) =
     \<lparr> product_fields.name = Product.name d, images = Product.images d,
       price = JNum (P (Product.price d)),
       categoryId = Product.categoryId d, colorId = Product.colorId d, sizeId = Product.sizeId d,
       isFeatured = Some (Product.isFeatured d), isArchived = Some (Product.isArchived d) \<rparr>"
    "ProductForm_defaultValues P None =
     \<lparr> product_fields.name = '''', images = [], price = JNum (Fin 0),
       categoryId = '''', colorId = '''', sizeId = '''',
       isFeatured = Some False, isArchived = Some False \<rparr>"
    "CategoryForm_defaultValues (Some k) =
     \<lparr> category_fields.name = Category.name k, billboardId = Category.billboardId k \<rparr>"
    "CategoryForm_defaultValues None = \<lparr> category_fields.name = '''', billboardId = '''' \<rparr>"
    by (simp_all add: ProductForm_defaultValues_def CategoryForm_defaultValues_def)
  have sent:
    "effects (state_of (ProductForm_onSubmit params (Some d) Resolved data s)) =
     effects s @
       [ Request PATCH (''/api/'' @ interp (params ''storeId'') @ ''/products/'' @ interp (params ''productId''))
           (Some data),
         Refresh, Push (''/'' @ interp (params ''storeId'') @ ''/products''),
         ToastSuccess ''Produk di Perbarui.'' ]"
    "effects (state_of (ProductForm_onSubmit params None Resolved data s)) =
     effects s @
       [ Request POST (''/api/'' @ interp (params ''storeId'') @ ''/products'') (Some data),
         Refresh, Push (''/'' @ interp (params ''storeId'') @ ''/products''),
         ToastSuccess ''Produk berhasil dibuat'' ]"
    "effects (state_of (CategoryForm_onSubmit params (Some k) Resolved cdata c)) =
     effects c @
       [ Request PATCH (''/api/'' @ interp (params ''storeId'') @ ''/categories/'' @ interp (params ''categoryId''))
           (Some cdata),
         Refresh, Push (''/'' @ interp (params ''storeId'') @ ''/categories''),
         ToastSuccess ''Kategori diperbarui.'' ]"
    "effects (state_of (CategoryForm_onSubmit params None Resolved cdata c)) =
     effects c @
       [ Request POST (''/api/'' @ interp (params ''storeId'') @ ''/categories'') (Some cdata),
         Refresh, Push (''/'' @ interp (params ''storeId'') @ ''/categories''),
         ToastSuccess ''Kategori berhasil dibuat'' ]"
    by (simp_all add: handler_results labels)
  have reqs:
    "requests (effects (state_of (ProductForm_onSubmit params (Some d) resp data s))) =
     requests (effects s) @
       [ Request PATCH (''/api/'' @ interp (params ''storeId'') @ ''/products/'' @ interp (params ''productId''))
           (Some data) ]"
    "requests (effects (state_of (ProductForm_onSubmit params None resp data s))) =
     requests (effects s) @
       [ Request POST (''/api/'' @ interp (params ''storeId'') @ ''/products'') (Some data) ]"
    "requests (effects (state_of (CategoryForm_onSubmit params (Some k) resp cdata c))) =
     requests (effects c) @
       [ Request PATCH (''/api/'' @ interp (params ''storeId'') @ ''/categories/'' @ interp (params ''categoryId''))
           (Some cdata) ]"
    "requests (effects (state_of (CategoryForm_onSubmit params None resp cdata c))) =
     requests (effects c) @
       [ Request POST (''/api/'' @ interp (params ''storeId'') @ ''/categories'') (Some cdata) ]"
    by (cases resp; simp add: handler_results effect_simps)+
  show ?thesis
    using labels rendered defaults sent reqs by blast
qed

text \<open>
  C7. Every submit and delete handler completes normally, whether the request resolves or
  rejects, with \<open>loading\<close> false; the delete handlers also leave the modal closed. After a
  rejected request every control of the form and its submit button are enabled.
\<close>

theorem loading_reset_after_every_attempt:
  "ProductForm_onSubmit params initialData resp data s =
     Normal (state_of (ProductForm_onSubmit params initialData resp data s)) \<and>
   loading (state_of (ProductForm_onSubmit params initialData resp data s)) = False \<and>
   ProductForm_onDelete params resp s = Normal (state_of (ProductForm_onDelete params resp s)) \<and>
   loading (state_of (ProductForm_onDelete params resp s)) = False \<and>
   open_modal (state_of (ProductForm_onDelete params resp s)) = False \<and>
   CategoryForm_onSubmit params initialCategory resp cdata c =
     Normal (state_of (CategoryForm_onSubmit params initialCategory resp cdata c)) \<and>
   loading (state_of (CategoryForm_onSubmit params initialCategory resp cdata c)) = False \<and>
   CategoryForm_onDelete params resp c = Normal (state_of (CategoryForm_onDelete params resp c)) \<and>
   loading (state_of (CategoryForm_onDelete params resp c)) = False \<and>
   open_modal (state_of (CategoryForm_onDelete params resp c)) = False \<and>
   CellAction_onDelete params row resp a = Normal (state_of (CellAction_onDelete params row resp a)) \<and>
   loading (state_of (CellAction_onDelete params row resp a)) = False \<and>
   open_modal (state_of (CellAction_onDelete params row resp a)) = False \<and>
   map snd (controls (ProductForm_render initialData
     (state_of (ProductForm_onSubmit params initialData Rejected data s)))) = replicate 8 False \<and>
   submit_disabled (ProductForm_render initialData
     (state_of (ProductForm_onSubmit params initialData Rejected data s))) = False \<and>
   map snd (controls (ProductForm_render initialData
     (state_of (ProductForm_onDelete params Rejected s)))) = replicate 8 False \<and>
   submit_disabled (ProductForm_render initialData
     (state_of (ProductForm_onDelete params Rejected s))) = False \<and>
   map snd (controls (CategoryForm_render initialCategory
     (state_of (CategoryForm_onSubmit params initialCategory Rejected cdata c)))) = replicate 2 False \<and>
   submit_disabled (CategoryForm_render initialCategory
     (state_of (CategoryForm_onSubmit params initialCategory Rejected cdata c))) = False \<and>
   map snd (controls (CategoryForm_render initialCategory
     (state_of (CategoryForm_onDelete params Rejected c)))) = replicate 2 False \<and>
   submit_disabled (CategoryForm_render initialCategory
     (state_of (CategoryForm_onDelete params Rejected c))) = False"
proof -
  have flags:
    "ProductForm_onSubmit params initialData resp data s =
       Normal (state_of (ProductForm_onSubmit params initialData resp data s))"
    "loading (state_of (ProductForm_onSubmit params initialData resp data s)) = False"
    "ProductForm_onDelete params resp s = Normal (state_of (ProductForm_onDelete params resp s))"
    "loading (state_of (ProductForm_onDelete params resp s)) = False"
    "open_modal (state_of (ProductForm_onDelete params resp s)) = False"
    "CategoryForm_onSubmit params initialCategory resp cdata c =
       Normal (state_of (CategoryForm_onSubmit params initialCategory resp cdata c))"
    "loading (state_of (CategoryForm_onSubmit params initialCategory resp cdata c)) = False"
    "CategoryForm_onDelete params resp c = Normal (state_of (CategoryForm_onDelete params resp c))"
    "loading (state_of (CategoryForm_onDelete params resp c)) = False"
    "open_modal (state_of (CategoryForm_onDelete params resp c)) = False"
    "CellAction_onDelete params row resp a = Normal (state_of (CellAction_onDelete params row resp a))"
    "loading (state_of (CellAction_onDelete params row resp a)) = False"
    "open_modal (state_of (CellAction_onDelete params row resp a)) = False"
    by (cases resp; simp add: handler_results)+
  have usable:
    "map snd (controls (ProductForm_render initialData
       (state_of (ProductForm_onSubmit params initialData Rejected data s)))) = replicate 8 False"
    "submit_disabled (ProductForm_render initialData
       (state_of (ProductForm_onSubmit params initialData Rejected data s))) = False"
    "map snd (controls (ProductForm_render initialData
       (state_of (ProductForm_onDelete params Rejected s)))) = replicate 8 False"
    "submit_disabled (ProductForm_render initialData
       (state_of (ProductForm_onDelete params Rejected s))) = False"
    "map snd (controls (CategoryForm_render initialCategory
       (state_of (CategoryForm_onSubmit params initialCategory Rejected cdata c)))) = replicate 2 False"
    "submit_disabled (CategoryForm_render initialCategory
       (state_of (CategoryForm_onSubmit params initialCategory Rejected cdata c))) = False"
    "map snd (controls (CategoryForm_render initialCategory
       (state_of (CategoryForm_onDelete params Rejected c)))) = replicate 2 False"
    "submit_disabled (CategoryForm_render initialCategory
       (state_of (CategoryForm_onDelete params Rejected c))) = False"
    by (simp_all add: handler_results ProductForm_render_def CategoryForm_render_def numeral_eq_Suc)
  show ?thesis
    using flags usable by blast
qed

text \<open>
  C8. The category form in create mode, with the name \<^verbatim>\<open>Vitamins\<close> and a non-empty
  billboard identifier, issues exactly these effects when the request resolves: one POST
  to \<^verbatim>\<open>/api/{storeId}/categories\<close> with the body \<^verbatim>\<open>{name: "Vitamins", billboardId}\<close>, a
  refresh, a push of \<^verbatim>\<open>/{storeId}/categories\<close>, and the success toast.
\<close>

theorem category_create_Vitamins:
  "params ''storeId'' = Some S \<and> b \<noteq> [] \<and>
   field_values c = \<lparr> category_fields.name = ''Vitamins'', billboardId = b \<rparr>
   \<longrightarrow>
   CategoryForm_submit params None Resolved c =
     Normal (c\<lparr> loading := False, field_errors := [],
               effects := effects c @
                 [ Request POST (''/api/'' @ S @ ''/categories'')
                     (Some \<lparr> category_fields.name = ''Vitamins'', billboardId = b \<rparr>),
                   Refresh,
                   Push (''/'' @ S @ ''/categories''),
                   ToastSuccess ''Kategori berhasil dibuat'' ] \<rparr>)"
proof (intro impI, elim conjE)
  assume p: "params ''storeId'' = Some S" and b: "b \<noteq> []"
    and v: "field_values c = \<lparr> category_fields.name = ''Vitamins'', billboardId = b \<rparr>"
  from b v have "formSchema_category_issues (field_values c) = []"
    by (simp add: formSchema_category_issues_Nil_iff)
  then have "formSchema_category (field_values c) = Inr (field_values c)"
    by (rule formSchema_category_Inr)
  then have "CategoryForm_submit params None Resolved c =
      CategoryForm_onSubmit params None Resolved (field_values c) (c\<lparr>field_errors := []\<rparr>)"
    unfolding CategoryForm_submit_def by (rule handleSubmit_Inr)
  then show "CategoryForm_submit params None Resolved c =
     Normal (c\<lparr> loading := False, field_errors := [],
               effects := effects c @
                 [ Request POST (''/api/'' @ S @ ''/categories'')
                     (Some \<lparr> category_fields.name = ''Vitamins'', billboardId = b \<rparr>),
                   Refresh,
                   Push (''/'' @ S @ ''/categories''),
                   ToastSuccess ''Kategori berhasil dibuat'' ] \<rparr>)"
    by (simp add: CategoryForm_onSubmit_Resolved CategoryForm_toastMessage_def interp_def p v)
qed

text \<open>Store \<^verbatim>\<open>s1\<close>, billboard \<^verbatim>\<open>b1\<close>.\<close>

theorem category_create_Vitamins_witness:
  "CategoryForm_submit [''storeId'' \<mapsto> ''s1''] None Resolved
     \<lparr> loading = False, open_modal = False,
       field_values = \<lparr> category_fields.name = ''Vitamins'', billboardId = ''b1'' \<rparr>,
       field_errors = [], effects = [] \<rparr> =
   Normal
     \<lparr> loading = False, open_modal = False,
       field_values = \<lparr> category_fields.name = ''Vitamins'', billboardId = ''b1'' \<rparr>,
       field_errors = [],
       effects =
         [ Request POST ''/api/s1/categories''
             (Some \<lparr> category_fields.name = ''Vitamins'', billboardId = ''b1'' \<rparr>),
           Refresh,
           Push ''/s1/categories'',
           ToastSuccess ''Kategori berhasil dibuat'' ] \<rparr>"
  using category_create_Vitamins [of "[''storeId'' \<mapsto> ''s1'']" "''s1''" "''b1''"
      "\<lparr> loading = False, open_modal = False,
         field_values = \<lparr> category_fields.name = ''Vitamins'', billboardId = ''b1'' \<rparr>,
         field_errors = [], effects = [] \<rparr>"]
  by simp

text \<open>
  C9. The product schema never reports an issue at the path \<^verbatim>\<open>images\<close>. A product with
  no image, whose four text fields are non-empty and whose price coerces to a finite number
  of at least 1, parses, and its submit in create mode sends one POST whose body has the
  empty image list. Each of the four text fields, emptied, is reported as \<open>too_small\<close>.
\<close>

theorem product_images_may_be_empty:
  "product_fields.name v \<noteq> [] \<and> product_fields.categoryId v \<noteq> [] \<and>
   product_fields.colorId v \<noteq> [] \<and> product_fields.sizeId v \<noteq> [] \<and>
   Number_js S (product_fields.price v) = Fin r \<and> 1 \<le> r \<and>
   product_fields.images v = [] \<and> field_values s = v
   \<longrightarrow>
   ''images'' \<notin> fst ` set (formSchema_product_issues S v) \<and>
   formSchema_product S v =
     Inr \<lparr> product_fields.name = product_fields.name v, images = [], price = Fin r,
           categoryId = product_fields.categoryId v, colorId = product_fields.colorId v,
           sizeId = product_fields.sizeId v,
           isFeatured = product_fields.isFeatured v, isArchived = product_fields.isArchived v \<rparr> \<and>
   requests (effects (state_of (ProductForm_submit S params None resp s))) =
     requests (effects s) @
       [ Request POST (''/api/'' @ interp (params ''storeId'') @ ''/products'')
           (Some \<lparr> product_fields.name = product_fields.name v, images = [], price = Fin r,
                   categoryId = product_fields.categoryId v, colorId = product_fields.colorId v,
                   sizeId = product_fields.sizeId v,
                   isFeatured = product_fields.isFeatured v,
                   isArchived = product_fields.isArchived v \<rparr>) ] \<and>
   (''name'', too_small) \<in> set (formSchema_product_issues S (v\<lparr>product_fields.name := ''''\<rparr>)) \<and>
   (''categoryId'', too_small) \<in> set (formSchema_product_issues S (v\<lparr>product_fields.categoryId := ''''\<rparr>)) \<and>
   (''colorId'', too_small) \<in> set (formSchema_product_issues S (v\<lparr>product_fields.colorId := ''''\<rparr>)) \<and>
   (''sizeId'', too_small) \<in> set (formSchema_product_issues S (v\<lparr>product_fields.sizeId := ''''\<rparr>))"
proof (intro impI, elim conjE)
  assume n: "product_fields.name v \<noteq> []" and c: "product_fields.categoryId v \<noteq> []"
    and k: "product_fields.colorId v \<noteq> []" and z: "product_fields.sizeId v \<noteq> []"
    and p: "Number_js S (product_fields.price v) = Fin r" and r: "1 \<le> r"
    and i: "product_fields.images v = []" and s: "field_values s = v"
  let ?data = "\<lparr> product_fields.name = product_fields.name v, images = [], price = Fin r,
           categoryId = product_fields.categoryId v, colorId = product_fields.colorId v,
           sizeId = product_fields.sizeId v,
           isFeatured = product_fields.isFeatured v, isArchived = product_fields.isArchived v \<rparr>"
  from n c k z p r have ok: "formSchema_product_issues S v = []"
    by (simp add: formSchema_product_issues_Nil_iff)
  have parsed: "formSchema_product S v = Inr ?data"
    using formSchema_product_Inr [OF ok] by (simp add: p i)
  with s have "ProductForm_submit S params None resp s =
      ProductForm_onSubmit params None resp ?data (s\<lparr>field_errors := []\<rparr>)"
    unfolding ProductForm_submit_def by (intro handleSubmit_Inr) simp
  then have sent: "requests (effects (state_of (ProductForm_submit S params None resp s))) =
     requests (effects s) @
       [ Request POST (''/api/'' @ interp (params ''storeId'') @ ''/products'') (Some ?data) ]"
    by (cases resp) (simp_all add: handler_results effect_simps)
  have no_images: "''images'' \<notin> fst ` set (formSchema_product_issues S v)"
    using product_paths [of S v] by auto
  have others:
    "(''name'', too_small) \<in> set (formSchema_product_issues S (v\<lparr>product_fields.name := ''''\<rparr>))"
    "(''categoryId'', too_small) \<in> set (formSchema_product_issues S (v\<lparr>product_fields.categoryId := ''''\<rparr>))"
    "(''colorId'', too_small) \<in> set (formSchema_product_issues S (v\<lparr>product_fields.colorId := ''''\<rparr>))"
    "(''sizeId'', too_small) \<in> set (formSchema_product_issues S (v\<lparr>product_fields.sizeId := ''''\<rparr>))"
    by (simp_all add: formSchema_product_issues_def at_path_def z_string_min_1)
  show "''images'' \<notin> fst ` set (formSchema_product_issues S v) \<and>
   formSchema_product S v = Inr ?data \<and>
   requests (effects (state_of (ProductForm_submit S params None resp s))) =
     requests (effects s) @
       [ Request POST (''/api/'' @ interp (params ''storeId'') @ ''/products'') (Some ?data) ] \<and>
   (''name'', too_small) \<in> set (formSchema_product_issues S (v\<lparr>product_fields.name := ''''\<rparr>)) \<and>
   (''categoryId'', too_small) \<in> set (formSchema_product_issues S (v\<lparr>product_fields.categoryId := ''''\<rparr>)) \<and>
   (''colorId'', too_small) \<in> set (formSchema_product_issues S (v\<lparr>product_fields.colorId := ''''\<rparr>)) \<and>
   (''sizeId'', too_small) \<in> set (formSchema_product_issues S (v\<lparr>product_fields.sizeId := ''''\<rparr>))"
    using no_images parsed sent others by blast
qed

text \<open>A product without images, priced 10000, in store \<^verbatim>\<open>s1\<close>.\<close>

theorem product_images_may_be_empty_witness:
  "\<forall>S. formSchema_product S
      \<lparr> product_fields.name = ''Paracetamol'', images = [], price = JNum (Fin 10000),
        categoryId = ''c1'', colorId = ''k1'', sizeId = ''z1'',
        isFeatured = Some False, isArchived = Some False \<rparr> =
     Inr \<lparr> product_fields.name = ''Paracetamol'', images = [], price = Fin 10000,
           categoryId = ''c1'', colorId = ''k1'', sizeId = ''z1'',
           isFeatured = Some False, isArchived = Some False \<rparr> \<and>
   requests (effects (state_of (ProductForm_submit S [''storeId'' \<mapsto> ''s1''] None Resolved
      \<lparr> loading = False, open_modal = False,
        field_values =
          \<lparr> product_fields.name = ''Paracetamol'', images = [], price = JNum (Fin 10000),
            categoryId = ''c1'', colorId = ''k1'', sizeId = ''z1'',
            isFeatured = Some False, isArchived = Some False \<rparr>,
        field_errors = [], effects = [] \<rparr>))) =
     [ Request POST ''/api/s1/products''
         (Some \<lparr> product_fields.name = ''Paracetamol'', images = [], price = Fin 10000,
                 categoryId = ''c1'', colorId = ''k1'', sizeId = ''z1'',
                 isFeatured = Some False, isArchived = Some False \<rparr>) ]"
proof
  fix S
  let ?v = "\<lparr> product_fields.name = ''Paracetamol'', images = [], price = JNum (Fin 10000),
        categoryId = ''c1'', colorId = ''k1'', sizeId = ''z1'',
        isFeatured = Some False, isArchived = Some False \<rparr>"
  let ?s = "\<lparr> loading = False, open_modal = False, field_values = ?v,
        field_errors = [], effects = [] \<rparr> :: product_state"
  have h: "product_fields.name ?v \<noteq> [] \<and> product_fields.categoryId ?v \<noteq> [] \<and>
   product_fields.colorId ?v \<noteq> [] \<and> product_fields.sizeId ?v \<noteq> [] \<and>
   Number_js S (product_fields.price ?v) = Fin 10000 \<and> 1 \<le> (10000::rat) \<and>
   product_fields.images ?v = [] \<and> field_values ?s = ?v"
    by (simp add: Number_js_def)
  from product_images_may_be_empty [of ?v S 10000 ?s "[''storeId'' \<mapsto> ''s1'']" Resolved] h
  have "formSchema_product S ?v =
     Inr \<lparr> product_fields.name = product_fields.name ?v, images = [], price = Fin 10000,
           categoryId = product_fields.categoryId ?v, colorId = product_fields.colorId ?v,
           sizeId = product_fields.sizeId ?v,
           isFeatured = product_fields.isFeatured ?v, isArchived = product_fields.isArchived ?v \<rparr>"
    and "requests (effects (state_of (ProductForm_submit S [''storeId'' \<mapsto> ''s1''] None Resolved ?s))) =
     requests (effects ?s) @
       [ Request POST (''/api/'' @ interp ([''storeId'' \<mapsto> ''s1''] ''storeId'') @ ''/products'')
           (Some \<lparr> product_fields.name = product_fields.name ?v, images = [], price = Fin 10000,
                   categoryId = product_fields.categoryId ?v, colorId = product_fields.colorId ?v,
                   sizeId = product_fields.sizeId ?v,
                   isFeatured = product_fields.isFeatured ?v,
                   isArchived = product_fields.isArchived ?v \<rparr>) ]"
    by blast+
  then show "formSchema_product S ?v =
     Inr \<lparr> product_fields.name = ''Paracetamol'', images = [], price = Fin 10000,
           categoryId = ''c1'', colorId = ''k1'', sizeId = ''z1'',
           isFeatured = Some False, isArchived = Some False \<rparr> \<and>
   requests (effects (state_of (ProductForm_submit S [''storeId'' \<mapsto> ''s1''] None Resolved ?s))) =
     [ Request POST ''/api/s1/products''
         (Some \<lparr> product_fields.name = ''Paracetamol'', images = [], price = Fin 10000,
                 categoryId = ''c1'', colorId = ''k1'', sizeId = ''z1'',
                 isFeatured = Some False, isArchived = Some False \<rparr>) ]"
    by (simp add: interp_def requests_def)
qed

text \<open>
  C10. The menu has eight routes with pairwise distinct hrefs, and a route is active exactly
  when the pathname equals its href. So for every pathname and every store id (empty or
  not) at most one route is active, and on a path below one of the seven resource lists,
  such as \<^verbatim>\<open>/{storeId}/billboards/{id}\<close>, no route is active.
\<close>

theorem MainNav_at_most_one_active:
  "length (MainNav_routes params pathname) = 8 \<and>
   distinct (map href (MainNav_routes params pathname)) \<and>
   (\<forall>r \<in> set (MainNav_routes params pathname). active r = (pathname = href r)) \<and>
   length (filter active (MainNav_routes params pathname)) \<le> 1 \<and>
   (\<forall>seg \<in> set [''billboards'', ''categories'', ''sizes'', ''colors'', ''products'', ''orders'', ''settings''].
      \<forall>rest. filter active
        (MainNav_routes params (''/'' @ interp (params ''storeId'') @ ''/'' @ seg @ ''/'' @ rest)) = [])"
proof (intro conjI)
  show "length (MainNav_routes params pathname) = 8"
    by (simp add: MainNav_routes_def)
  show "distinct (map href (MainNav_routes params pathname))"
    by (simp add: MainNav_routes_def)
  show "\<forall>r \<in> set (MainNav_routes params pathname). active r = (pathname = href r)"
    by (simp add: MainNav_routes_def)
  show "length (filter active (MainNav_routes params pathname)) \<le> 1"
    by (auto simp: MainNav_routes_def)
  show "\<forall>seg \<in> set [''billboards'', ''categories'', ''sizes'', ''colors'', ''products'', ''orders'', ''settings''].
      \<forall>rest. filter active
        (MainNav_routes params (''/'' @ interp (params ''storeId'') @ ''/'' @ seg @ ''/'' @ rest)) = []"
    by (auto simp: MainNav_routes_def)
qed

text \<open>
  At store \<^verbatim>\<open>s1\<close> and path \<^verbatim>\<open>/s1/colors\<close> the fifth route alone is active; at
  \<^verbatim>\<open>/s1/billboards/b7\<close> none is.
\<close>

theorem MainNav_at_most_one_active_witness:
  "map active (MainNav_routes [''storeId'' \<mapsto> ''s1''] ''/s1/colors'') =
     [False, False, False, False, True, False, False, False] \<and>
   href (MainNav_routes [''storeId'' \<mapsto> ''s1''] ''/s1/colors'' ! 4) = ''/s1/colors'' \<and>
   length (filter active (MainNav_routes [''storeId'' \<mapsto> ''s1''] ''/s1/colors'')) \<le> 1 \<and>
   filter active (MainNav_routes [''storeId'' \<mapsto> ''s1''] ''/s1/billboards/b7'') = []"
proof -
  have mem: "''billboards'' \<in> set [''billboards'', ''categories'', ''sizes'', ''colors'', ''products'', ''orders'', ''settings'']"
    by simp
  from MainNav_at_most_one_active [of "[''storeId'' \<mapsto> ''s1'']" "''/s1/colors''"]
  have le: "length (filter active (MainNav_routes [''storeId'' \<mapsto> ''s1''] ''/s1/colors'')) \<le> 1"
    and sub: "\<forall>seg \<in> set [''billboards'', ''categories'', ''sizes'', ''colors'', ''products'', ''orders'', ''settings''].
      \<forall>rest. filter active
        (MainNav_routes [''storeId'' \<mapsto> ''s1''] (''/'' @ interp ([''storeId'' \<mapsto> ''s1''] ''storeId'') @ ''/'' @ seg @ ''/'' @ rest)) = []"
    by blast+
  from sub mem have "filter active
        (MainNav_routes [''storeId'' \<mapsto> ''s1''] (''/'' @ interp ([''storeId'' \<mapsto> ''s1''] ''storeId'') @ ''/'' @ ''billboards'' @ ''/'' @ ''b7'')) = []"
    by blast
  then have e: "filter active (MainNav_routes [''storeId'' \<mapsto> ''s1''] ''/s1/billboards/b7'') = []"
    by (simp add: interp_def)
  have a: "map active (MainNav_routes [''storeId'' \<mapsto> ''s1''] ''/s1/colors'') =
     [False, False, False, False, True, False, False, False]"
    by (simp add: MainNav_routes_def interp_def)
  have h: "href (MainNav_routes [''storeId'' \<mapsto> ''s1''] ''/s1/colors'' ! 4) = ''/s1/colors''"
    by (simp add: MainNav_routes_def interp_def)
  from a h le e show ?thesis by blast
qed

end
